theory Spec2Isabelle
  imports Complex_Main "HOL-Library.Monad_Syntax"
begin

section \<open>Data model (src/src/types.ts)\<close>

text \<open>
  The TypeScript type \<open>number\<close> is modelled by \<open>real\<close>: the numbers are finite and
  arithmetic is exact, so the rounding of IEEE-754 doubles, overflow to an infinity and
  \<open>-0\<close> are outside the model. The value \<open>NaN\<close> appears in the source only as the result of the builtins
  \<open>Number(text)\<close> and \<open>new Date(text).getTime()\<close>; their results have the type
  \<open>jsnum\<close>, and every place where the source stores a number in the form state
  first removes \<open>NaN\<close>, so the fields themselves are \<open>real\<close>.

  A field declared optional (\<open>name?: string\<close>) is an \<open>option\<close>. A field whose name
  is taken in HOL or by another record carries the record as a suffix.
\<close>

datatype jsnum = NaN | Num real

datatype Currency = INR | USD | EUR

record ClientDetails =
  companyName :: string
  contactName :: string
  email :: string
  phone :: string
  addressLine1 :: string
  addressLine2 :: "string option"
  city :: string
  state_client :: string
  postalCode :: string
  country :: string
  gstin :: "string option"

record LineItem =
  id_item :: string
  serviceId :: string
  description :: string
  quantity :: real
  unitPrice :: real
  discountRate :: real
  notes_item :: "string option"

record InvoiceMeta =
  invoiceNumber :: string
  issueDate :: string
  dueDate :: string
  projectName :: string
  purchaseOrder :: "string option"
  reference :: "string option"

record InvoiceFormState =
  clientSelectionId :: string
  client :: ClientDetails
  currency :: Currency
  taxRate :: real
  lineItems :: "LineItem list"
  meta :: InvoiceMeta
  terms :: string
  additionalNote :: string

section \<open>Totals calculator (the \<open>totals\<close> memo of InvoiceBuilder)\<close>



section \<open>Validator (\<open>validateInvoice\<close>)\<close>

text \<open>
  What the handlers take from outside the component: the builtin that reads a date
  (\<open>new Date(text).getTime()\<close>, \<open>NaN\<close> for an invalid date), the confirmation
  dialog (\<open>None\<close> where \<open>typeof window === 'undefined'\<close>), the clock
  (\<open>new Date().toISOString()\<close>) and the token that this call of \<open>generateId\<close>
  draws from \<open>Math.random\<close>.
\<close>

record Env =
  Date_getTime :: "string \<Rightarrow> jsnum"
  window_confirm :: "(string \<Rightarrow> bool) option"
  Date_toISOString :: string
  generateId :: string

definition isNaN :: "jsnum \<Rightarrow> bool" where
  "isNaN n = (case n of NaN \<Rightarrow> True | Num v \<Rightarrow> False)"

text \<open>The comparison \<open>a < b\<close> of two numbers is false when either is \<open>NaN\<close>.\<close>

definition js_less :: "jsnum \<Rightarrow> jsnum \<Rightarrow> bool" where
  "js_less a b = (case (a, b) of (Num x, Num y) \<Rightarrow> x < y | _ \<Rightarrow> False)"

text \<open>
  \<open>String.prototype.trim\<close> on the one-byte characters of \<open>string\<close>: tab, line
  feed, vertical tab, form feed, carriage return and space are stripped from both ends.
\<close>

definition isWhiteSpace :: "char \<Rightarrow> bool" where
  "isWhiteSpace c =
     (c = CHR 0x09 \<or> c = CHR 0x0A \<or> c = CHR 0x0B \<or> c = CHR 0x0C \<or> c = CHR 0x0D \<or> c = CHR '' '')"

definition trim :: "string \<Rightarrow> string" where
  "trim s = rev (dropWhile isWhiteSpace (rev (dropWhile isWhiteSpace s)))"

text \<open>The statement \<open>if (c) { issues.push(msg) }\<close> as a function of the list so far.\<close>

definition push_when :: "bool \<Rightarrow> string \<Rightarrow> string list \<Rightarrow> string list" where
  "push_when c msg issues = (if c then issues @ [msg] else issues)"

text \<open>
  The fourth check: both date texts are truthy (non-empty), both parse, and the due
  date is strictly earlier.
\<close>

definition dueBeforeIssue :: "Env \<Rightarrow> InvoiceFormState \<Rightarrow> bool" where
  "dueBeforeIssue env state =
     (if issueDate (meta state) \<noteq> [] \<and> dueDate (meta state) \<noteq> [] then
        (let issue = Date_getTime env (issueDate (meta state));
             due = Date_getTime env (dueDate (meta state))
         in \<not> isNaN issue \<and> \<not> isNaN due \<and> js_less due issue)
      else False)"

definition lineItemInvalid :: "LineItem \<Rightarrow> bool" where
  "lineItemInvalid item =
     (trim (description item) = [] \<or> quantity item \<le> 0 \<or> unitPrice item < 0 \<or> discountRate item < 0)"

definition validateInvoice :: "Env \<Rightarrow> InvoiceFormState \<Rightarrow> string list" where
  "validateInvoice env state =
     (let issues = [];
          issues = push_when (trim (invoiceNumber (meta state)) = []) ''Invoice number is required.'' issues;
          issues = push_when (trim (issueDate (meta state)) = []) ''Issue date is required.'' issues;
          issues = push_when (trim (dueDate (meta state)) = []) ''Due date is required.'' issues;
          issues = push_when (dueBeforeIssue env state) ''Due date must be on or after issue date.'' issues;
          issues = push_when (trim (companyName (client state)) = []) ''Bill to company name is required.'' issues;
          issues = push_when (trim (addressLine1 (client state)) = []) ''Bill to address line 1 is required.'' issues;
          issues = push_when (trim (city (client state)) = []) ''Bill to city is required.'' issues;
          issues = push_when (trim (state_client (client state)) = []) ''Bill to state is required.'' issues;
          issues = push_when (trim (postalCode (client state)) = []) ''Bill to postal code is required.'' issues;
          issues = push_when (trim (country (client state)) = []) ''Bill to country is required.'' issues;
          issues = push_when (length (lineItems state) = 0) ''At least one line item is required.'' issues;
          issues = push_when (list_ex lineItemInvalid (lineItems state))
            ''Line items must include a description, quantity > 0, non-negative unit price, and non-negative discount.''
            issues
      in issues)"

text \<open>
  The reading of the specification: the validator has a fixed, ordered list of rules,
  each a violation condition with its issue text, and returns the texts of the violated
  rules in that order. The conditions and texts are those of the source.
\<close>

definition validation_rules :: "Env \<Rightarrow> InvoiceFormState \<Rightarrow> (bool \<times> string) list" where
  "validation_rules env state =
     [(trim (invoiceNumber (meta state)) = [], ''Invoice number is required.''),
      (trim (issueDate (meta state)) = [], ''Issue date is required.''),
      (trim (dueDate (meta state)) = [], ''Due date is required.''),
      (dueBeforeIssue env state, ''Due date must be on or after issue date.''),
      (trim (companyName (client state)) = [], ''Bill to company name is required.''),
      (trim (addressLine1 (client state)) = [], ''Bill to address line 1 is required.''),
      (trim (city (client state)) = [], ''Bill to city is required.''),
      (trim (state_client (client state)) = [], ''Bill to state is required.''),
      (trim (postalCode (client state)) = [], ''Bill to postal code is required.''),
      (trim (country (client state)) = [], ''Bill to country is required.''),
      (lineItems state = [], ''At least one line item is required.''),
      (list_ex lineItemInvalid (lineItems state),
       ''Line items must include a description, quantity > 0, non-negative unit price, and non-negative discount.'')]"

section \<open>Entry of numbers (\<open>handleTaxRateChange\<close> and the line-item inputs)\<close>









section \<open>Removing a line item (\<open>handleRemoveLineItem\<close>)\<close>


section \<open>Snapshot cloner (\<open>cloneFormState\<close>)\<close>

text \<open>
  \<open>cloneFormState\<close> is \<open>JSON.parse(JSON.stringify(state))\<close>. The serialized text
  is represented by its syntax tree. \<open>JSON.stringify\<close> writes the properties of an
  object in order and leaves out a property whose value is \<open>undefined\<close>;
  \<open>JSON.parse\<close> builds the object again, the last of two equal keys winning. The
  cast \<open>as InvoiceFormState\<close> is unchecked in the source: here reading the parsed
  object at the declared type gives \<open>None\<close> when a property has another type.
\<close>

datatype json =
  JNull
| JBool bool
| JNumber real
| JString string
| JArray "json list"
| JObject "(string \<times> json) list"

definition optional_property :: "string \<Rightarrow> string option \<Rightarrow> (string \<times> json) list" where
  "optional_property key v = (case v of None \<Rightarrow> [] | Some s \<Rightarrow> [(key, JString s)])"

definition stringify_ClientDetails :: "ClientDetails \<Rightarrow> json" where
  "stringify_ClientDetails c =
     JObject ([(''companyName'', JString (companyName c)),
               (''contactName'', JString (contactName c)),
               (''email'', JString (email c)),
               (''phone'', JString (phone c)),
               (''addressLine1'', JString (addressLine1 c))]
              @ optional_property ''addressLine2'' (addressLine2 c)
              @ [(''city'', JString (city c)),
                 (''state'', JString (state_client c)),
                 (''postalCode'', JString (postalCode c)),
                 (''country'', JString (country c))]
              @ optional_property ''gstin'' (gstin c))"

definition stringify_LineItem :: "LineItem \<Rightarrow> json" where
  "stringify_LineItem item =
     JObject ([(''id'', JString (id_item item)),
               (''serviceId'', JString (serviceId item)),
               (''description'', JString (description item)),
               (''quantity'', JNumber (quantity item)),
               (''unitPrice'', JNumber (unitPrice item)),
               (''discountRate'', JNumber (discountRate item))]
              @ optional_property ''notes'' (notes_item item))"

definition stringify_InvoiceMeta :: "InvoiceMeta \<Rightarrow> json" where
  "stringify_InvoiceMeta m =
     JObject ([(''invoiceNumber'', JString (invoiceNumber m)),
               (''issueDate'', JString (issueDate m)),
               (''dueDate'', JString (dueDate m)),
               (''projectName'', JString (projectName m))]
              @ optional_property ''purchaseOrder'' (purchaseOrder m)
              @ optional_property ''reference'' (reference m))"

fun currency_text :: "Currency \<Rightarrow> string" where
  "currency_text INR = ''INR''"
| "currency_text USD = ''USD''"
| "currency_text EUR = ''EUR''"

definition stringify_InvoiceFormState :: "InvoiceFormState \<Rightarrow> json" where
  "stringify_InvoiceFormState state =
     JObject [(''clientSelectionId'', JString (clientSelectionId state)),
              (''client'', stringify_ClientDetails (client state)),
              (''currency'', JString (currency_text (currency state))),
              (''taxRate'', JNumber (taxRate state)),
              (''lineItems'', JArray (map stringify_LineItem (lineItems state))),
              (''meta'', stringify_InvoiceMeta (meta state)),
              (''terms'', JString (terms state)),
              (''additionalNote'', JString (additionalNote state))]"

text \<open>Reading the property \<open>key\<close> of a parsed value; \<open>None\<close> is \<open>undefined\<close>.\<close>

definition property :: "json \<Rightarrow> string \<Rightarrow> json option" where
  "property j key = (case j of JObject props \<Rightarrow> map_of (rev props) key | _ \<Rightarrow> None)"

definition as_string :: "json option \<Rightarrow> string option" where
  "as_string v = (case v of Some (JString s) \<Rightarrow> Some s | _ \<Rightarrow> None)"

definition as_optional_string :: "json option \<Rightarrow> string option option" where
  "as_optional_string v = (case v of None \<Rightarrow> Some None | Some (JString s) \<Rightarrow> Some (Some s) | _ \<Rightarrow> None)"

definition as_number :: "json option \<Rightarrow> real option" where
  "as_number v = (case v of Some (JNumber r) \<Rightarrow> Some r | _ \<Rightarrow> None)"

definition as_Currency :: "json option \<Rightarrow> Currency option" where
  "as_Currency v =
     (case v of
        Some (JString s) \<Rightarrow>
          if s = ''INR'' then Some INR else if s = ''USD'' then Some USD
          else if s = ''EUR'' then Some EUR else None
      | _ \<Rightarrow> None)"

definition as_ClientDetails :: "json option \<Rightarrow> ClientDetails option" where
  "as_ClientDetails v =
     (case v of
        Some j \<Rightarrow> do {
          companyName' \<leftarrow> as_string (property j ''companyName'');
          contactName' \<leftarrow> as_string (property j ''contactName'');
          email' \<leftarrow> as_string (property j ''email'');
          phone' \<leftarrow> as_string (property j ''phone'');
          addressLine1' \<leftarrow> as_string (property j ''addressLine1'');
          addressLine2' \<leftarrow> as_optional_string (property j ''addressLine2'');
          city' \<leftarrow> as_string (property j ''city'');
          state' \<leftarrow> as_string (property j ''state'');
          postalCode' \<leftarrow> as_string (property j ''postalCode'');
          country' \<leftarrow> as_string (property j ''country'');
          gstin' \<leftarrow> as_optional_string (property j ''gstin'');
          Some \<lparr>companyName = companyName', contactName = contactName', email = email',
                phone = phone', addressLine1 = addressLine1', addressLine2 = addressLine2',
                city = city', state_client = state', postalCode = postalCode',
                country = country', gstin = gstin'\<rparr>
        }
      | None \<Rightarrow> None)"

definition as_LineItem :: "json \<Rightarrow> LineItem option" where
  "as_LineItem j = do {
     id' \<leftarrow> as_string (property j ''id'');
     serviceId' \<leftarrow> as_string (property j ''serviceId'');
     description' \<leftarrow> as_string (property j ''description'');
     quantity' \<leftarrow> as_number (property j ''quantity'');
     unitPrice' \<leftarrow> as_number (property j ''unitPrice'');
     discountRate' \<leftarrow> as_number (property j ''discountRate'');
     notes' \<leftarrow> as_optional_string (property j ''notes'');
     Some \<lparr>id_item = id', serviceId = serviceId', description = description',
           quantity = quantity', unitPrice = unitPrice', discountRate = discountRate',
           notes_item = notes'\<rparr>
   }"

definition as_LineItems :: "json option \<Rightarrow> LineItem list option" where
  "as_LineItems v = (case v of Some (JArray js) \<Rightarrow> those (map as_LineItem js) | _ \<Rightarrow> None)"

definition as_InvoiceMeta :: "json option \<Rightarrow> InvoiceMeta option" where
  "as_InvoiceMeta v =
     (case v of
        Some j \<Rightarrow> do {
          invoiceNumber' \<leftarrow> as_string (property j ''invoiceNumber'');
          issueDate' \<leftarrow> as_string (property j ''issueDate'');
          dueDate' \<leftarrow> as_string (property j ''dueDate'');
          projectName' \<leftarrow> as_string (property j ''projectName'');
          purchaseOrder' \<leftarrow> as_optional_string (property j ''purchaseOrder'');
          reference' \<leftarrow> as_optional_string (property j ''reference'');
          Some \<lparr>invoiceNumber = invoiceNumber', issueDate = issueDate', dueDate = dueDate',
                projectName = projectName', purchaseOrder = purchaseOrder',
                reference = reference'\<rparr>
        }
      | None \<Rightarrow> None)"

definition as_InvoiceFormState :: "json \<Rightarrow> InvoiceFormState option" where
  "as_InvoiceFormState j = do {
     clientSelectionId' \<leftarrow> as_string (property j ''clientSelectionId'');
     client' \<leftarrow> as_ClientDetails (property j ''client'');
     currency' \<leftarrow> as_Currency (property j ''currency'');
     taxRate' \<leftarrow> as_number (property j ''taxRate'');
     lineItems' \<leftarrow> as_LineItems (property j ''lineItems'');
     meta' \<leftarrow> as_InvoiceMeta (property j ''meta'');
     terms' \<leftarrow> as_string (property j ''terms'');
     additionalNote' \<leftarrow> as_string (property j ''additionalNote'');
     Some \<lparr>clientSelectionId = clientSelectionId', client = client', currency = currency',
           taxRate = taxRate', lineItems = lineItems', meta = meta', terms = terms',
           additionalNote = additionalNote'\<rparr>
   }"

definition cloneFormState :: "InvoiceFormState \<Rightarrow> InvoiceFormState option" where
  "cloneFormState state =
     (let serialized = stringify_InvoiceFormState state in as_InvoiceFormState serialized)"

section \<open>Archive store (the saved-invoice handlers of InvoiceBuilder)\<close>

text \<open>
  A saved copy, with the fields of the object literal that \<open>handleSaveInvoiceCopy\<close>
  builds (the component imports the type \<open>StoredInvoice\<close> from the types module), and
  the state of the component that the archive handlers read and write.
\<close>

record StoredInvoice =
  id_inv :: string
  invoiceNumber_inv :: string
  savedAt :: string
  formState_inv :: InvoiceFormState

datatype LayoutMode = Split | Form | Preview

record AppState =
  formState :: InvoiceFormState
  savedInvoices :: "StoredInvoice list"
  selectedSavedInvoiceId :: string
  layoutMode :: LayoutMode
  hasUserSelectedLayout :: bool

text \<open>\<open>issues.join('\n')\<close> and the text that the confirmation dialog shows.\<close>

fun join :: "string \<Rightarrow> string list \<Rightarrow> string" where
  "join sep [] = []"
| "join sep [x] = x"
| "join sep (x # y # ys) = x @ sep @ join sep (y # ys)"

definition missingDetails :: "string list \<Rightarrow> string \<Rightarrow> string" where
  "missingDetails issues question =
     ''Some details are missing:'' @ [CHR 0x0A, CHR 0x0A] @ join [CHR 0x0A] issues
       @ [CHR 0x0A, CHR 0x0A] @ question"

text \<open>
  The guard of save and update: with issues and a window, the dialog is shown and the
  handler returns when the user does not confirm.
\<close>

definition declined :: "Env \<Rightarrow> string list \<Rightarrow> string \<Rightarrow> bool" where
  "declined env issues question =
     (if issues \<noteq> [] then
        (case window_confirm env of
           None \<Rightarrow> False
         | Some confirm \<Rightarrow> \<not> confirm (missingDetails issues question))
      else False)"

text \<open>
  The handlers return \<open>None\<close> only where \<open>cloneFormState\<close> would not give a form
  state; an early \<open>return\<close> of the source gives the state unchanged.
\<close>

definition handleSaveInvoiceCopy :: "Env \<Rightarrow> AppState \<Rightarrow> AppState option" where
  "handleSaveInvoiceCopy env app =
     (let issues = validateInvoice env (formState app) in
      if declined env issues ''Save anyway?'' then Some app
      else
        (let savedAt' = Date_toISOString env in
         case cloneFormState (formState app) of
           None \<Rightarrow> None
         | Some clone \<Rightarrow>
             (let invoice = \<lparr>id_inv = generateId env,
                             invoiceNumber_inv = invoiceNumber (meta (formState app)),
                             savedAt = savedAt',
                             formState_inv = clone\<rparr>
              in Some (app\<lparr>savedInvoices := invoice # savedInvoices app,
                            selectedSavedInvoiceId := id_inv invoice\<rparr>))))"

definition handleUpdateSavedInvoiceCopy :: "Env \<Rightarrow> AppState \<Rightarrow> AppState option" where
  "handleUpdateSavedInvoiceCopy env app =
     (if selectedSavedInvoiceId app = [] then Some app
      else
        (let issues = validateInvoice env (formState app) in
         if declined env issues ''Update anyway?'' then Some app
         else
           (let savedAt' = Date_toISOString env in
            map_option (\<lambda>invoices. app\<lparr>savedInvoices := invoices\<rparr>)
              (those (map (\<lambda>inv.
                   if id_inv inv = selectedSavedInvoiceId app
                   then map_option
                     (\<lambda>clone. inv\<lparr>invoiceNumber_inv := invoiceNumber (meta (formState app)),
                                    savedAt := savedAt',
                                    formState_inv := clone\<rparr>)
                     (cloneFormState (formState app))
                   else Some inv) (savedInvoices app))))))"

definition handleDuplicateSavedInvoiceCopy :: "Env \<Rightarrow> AppState \<Rightarrow> AppState option" where
  "handleDuplicateSavedInvoiceCopy env app =
     (let savedAt' = Date_toISOString env in
      case cloneFormState (formState app) of
        None \<Rightarrow> None
      | Some clone \<Rightarrow>
          (let invoice = \<lparr>id_inv = generateId env,
                          invoiceNumber_inv = invoiceNumber (meta (formState app)),
                          savedAt = savedAt',
                          formState_inv = clone\<rparr>
           in Some (app\<lparr>savedInvoices := invoice # savedInvoices app,
                         selectedSavedInvoiceId := id_inv invoice\<rparr>)))"

text \<open>
  \<open>handleLoadSavedInvoice\<close>; the deferred \<open>scrollIntoView\<close> of the preview has no
  effect on the state.
\<close>

definition handleLoadSavedInvoice :: "string \<Rightarrow> AppState \<Rightarrow> AppState option" where
  "handleLoadSavedInvoice id' app =
     (case find (\<lambda>inv. id_inv inv = id') (savedInvoices app) of
        None \<Rightarrow> Some app
      | Some match \<Rightarrow>
          (case cloneFormState (formState_inv match) of
             None \<Rightarrow> None
           | Some clone \<Rightarrow>
               Some (app\<lparr>formState := clone,
                          selectedSavedInvoiceId := id_inv match,
                          hasUserSelectedLayout := True,
                          layoutMode := Preview\<rparr>)))"

section \<open>The form state as an object graph\<close>

text \<open>
  At run time a form state is not a value but a graph of objects: the root object holds
  its strings and numbers (immutable primitives) by value and refers to three further
  objects, the client, the meta data and the array of line items, which in turn refers
  to one object per item. The store is the list of all objects allocated so far; an
  address is an index into it, and a new object is put at the end.
\<close>

type_synonym addr = nat

record FormStateObject =
  obj_clientSelectionId :: string
  obj_client :: addr
  obj_currency :: Currency
  obj_taxRate :: real
  obj_lineItems :: addr
  obj_meta :: addr
  obj_terms :: string
  obj_additionalNote :: string

datatype object =
  FormStateObj FormStateObject
| ClientObj ClientDetails
| LineItemsObj "addr list"
| LineItemObj LineItem
| MetaObj InvoiceMeta

type_synonym heap = "object list"

definition object_at :: "heap \<Rightarrow> addr \<Rightarrow> object option" where
  "object_at h a = (if a < length h then Some (h ! a) else None)"

text \<open>
  What \<open>JSON.stringify\<close> reads when it walks the graph from an address: the form
  state as a value, or \<open>None\<close> when the objects met are not those of a form state.
\<close>

definition read_ClientDetails :: "heap \<Rightarrow> addr \<Rightarrow> ClientDetails option" where
  "read_ClientDetails h a = (case object_at h a of Some (ClientObj c) \<Rightarrow> Some c | _ \<Rightarrow> None)"

definition read_LineItem :: "heap \<Rightarrow> addr \<Rightarrow> LineItem option" where
  "read_LineItem h a = (case object_at h a of Some (LineItemObj item) \<Rightarrow> Some item | _ \<Rightarrow> None)"

definition read_LineItems :: "heap \<Rightarrow> addr \<Rightarrow> LineItem list option" where
  "read_LineItems h a =
     (case object_at h a of
        Some (LineItemsObj items) \<Rightarrow> those (map (read_LineItem h) items)
      | _ \<Rightarrow> None)"

definition read_InvoiceMeta :: "heap \<Rightarrow> addr \<Rightarrow> InvoiceMeta option" where
  "read_InvoiceMeta h a = (case object_at h a of Some (MetaObj m) \<Rightarrow> Some m | _ \<Rightarrow> None)"

definition read_FormState :: "heap \<Rightarrow> addr \<Rightarrow> InvoiceFormState option" where
  "read_FormState h a =
     (case object_at h a of
        Some (FormStateObj rootObj) \<Rightarrow> do {
          client' \<leftarrow> read_ClientDetails h (obj_client rootObj);
          lineItems' \<leftarrow> read_LineItems h (obj_lineItems rootObj);
          meta' \<leftarrow> read_InvoiceMeta h (obj_meta rootObj);
          Some \<lparr>clientSelectionId = obj_clientSelectionId rootObj, client = client',
                currency = obj_currency rootObj, taxRate = obj_taxRate rootObj,
                lineItems = lineItems', meta = meta', terms = obj_terms rootObj,
                additionalNote = obj_additionalNote rootObj\<rparr>
        }
      | _ \<Rightarrow> None)"

text \<open>The addresses of the objects of the graph: every object a mutation of it can touch.\<close>

definition objects_of :: "heap \<Rightarrow> addr \<Rightarrow> addr list" where
  "objects_of h a =
     (case object_at h a of
        Some (FormStateObj rootObj) \<Rightarrow>
          a # obj_client rootObj # obj_meta rootObj # obj_lineItems rootObj
            # (case object_at h (obj_lineItems rootObj) of
                 Some (LineItemsObj items) \<Rightarrow> items
               | _ \<Rightarrow> [])
      | _ \<Rightarrow> [a])"

text \<open>
  What \<open>JSON.parse\<close> builds from the serialized text: a new object for every object
  and array of the text, none of them an object that existed before.
\<close>

definition alloc :: "object \<Rightarrow> heap \<Rightarrow> addr \<times> heap" where
  "alloc obj h = (length h, h @ [obj])"

fun alloc_LineItems :: "LineItem list \<Rightarrow> heap \<Rightarrow> addr list \<times> heap" where
  "alloc_LineItems [] h = ([], h)"
| "alloc_LineItems (item # rest) h =
     (let (a, h1) = alloc (LineItemObj item) h;
          (as, h2) = alloc_LineItems rest h1
      in (a # as, h2))"

definition build_FormState :: "InvoiceFormState \<Rightarrow> heap \<Rightarrow> addr \<times> heap" where
  "build_FormState state h =
     (let (client', h1) = alloc (ClientObj (client state)) h;
          (items, h2) = alloc_LineItems (lineItems state) h1;
          (lineItems', h3) = alloc (LineItemsObj items) h2;
          (meta', h4) = alloc (MetaObj (meta state)) h3
      in alloc (FormStateObj
                 \<lparr>obj_clientSelectionId = clientSelectionId state, obj_client = client',
                  obj_currency = currency state, obj_taxRate = taxRate state,
                  obj_lineItems = lineItems', obj_meta = meta', obj_terms = terms state,
                  obj_additionalNote = additionalNote state\<rparr>) h4)"

text \<open>
  \<open>cloneFormState\<close> on the store: the graph at \<open>a\<close> is serialized, the text is
  parsed, and the parsed form state is built from new objects. The result is the
  address of the clone and the store after the call.
\<close>

definition cloneFormState_heap :: "addr \<Rightarrow> heap \<Rightarrow> (addr \<times> heap) option" where
  "cloneFormState_heap a h = do {
     state \<leftarrow> read_FormState h a;
     parsed \<leftarrow> cloneFormState state;
     Some (build_FormState parsed h)
   }"

section \<open>Concrete values for the examples\<close>

definition example_client :: ClientDetails where
  "example_client =
     \<lparr>companyName = ''Acme Retail'', contactName = ''R. Iyer'', email = ''ap@acme.example'',
      phone = ''+91 44 5550 1000'', addressLine1 = ''12 Mount Road'', addressLine2 = Some [],
      city = ''Chennai'', state_client = ''Tamil Nadu'', postalCode = ''600002'',
      country = ''India'', gstin = Some []\<rparr>"

definition example_item :: LineItem where
  "example_item =
     \<lparr>id_item = ''li1'', serviceId = ''svc1'', description = ''Website build'', quantity = 2,
      unitPrice = 1000, discountRate = 10, notes_item = Some []\<rparr>"

definition example_meta :: InvoiceMeta where
  "example_meta =
     \<lparr>invoiceNumber = ''ADS-2024-0105-k3j9x0ab'', issueDate = ''2024-01-05'',
      dueDate = ''2024-01-20'', projectName = ''Retainer Services'', purchaseOrder = Some [],
      reference = Some []\<rparr>"

definition example_state :: InvoiceFormState where
  "example_state =
     \<lparr>clientSelectionId = ''c1'', client = example_client, currency = INR, taxRate = 18,
      lineItems = [example_item], meta = example_meta, terms = ''Payment due within 15 days.'',
      additionalNote = []\<rparr>"

text \<open>
  An invoice with no due date and no company name, and an archive entry saved from the
  complete invoice under another number.
\<close>

definition incomplete_state :: InvoiceFormState where
  "incomplete_state =
     example_state\<lparr>client := example_client\<lparr>companyName := []\<rparr>,
                    meta := example_meta\<lparr>dueDate := []\<rparr>\<rparr>"

definition example_stored :: StoredInvoice where
  "example_stored =
     \<lparr>id_inv = ''a1b2c3d4'', invoiceNumber_inv = ''ADS-2023-1201-zz00yy11'',
      savedAt = ''2023-12-01T09:00:00.000Z'',
      formState_inv = example_state\<lparr>meta := example_meta\<lparr>invoiceNumber := ''ADS-2023-1201-zz00yy11''\<rparr>\<rparr>\<rparr>"

text \<open>
  Two environments: in the first the user confirms every dialog, in the second the user
  declines every dialog. The two dates of the examples parse to their milliseconds since
  the epoch (midnight UTC); the examples use no other date text.
\<close>

definition example_getTime :: "string \<Rightarrow> jsnum" where
  "example_getTime text =
     (if text = ''2024-01-05'' then Num 1704412800000
      else if text = ''2024-01-20'' then Num 1705708800000
      else NaN)"

definition confirming_env :: Env where
  "confirming_env =
     \<lparr>Date_getTime = example_getTime, window_confirm = Some (\<lambda>message. True),
      Date_toISOString = ''2024-01-05T10:30:00.000Z'', generateId = ''q7w8e9r0''\<rparr>"

definition declining_env :: Env where
  "declining_env = confirming_env\<lparr>window_confirm := Some (\<lambda>message. False)\<rparr>"

definition example_app :: AppState where
  "example_app =
     \<lparr>formState = example_state, savedInvoices = [example_stored],
      selectedSavedInvoiceId = ''a1b2c3d4'', layoutMode = Form, hasUserSelectedLayout = False\<rparr>"

definition incomplete_app :: AppState where
  "incomplete_app = example_app\<lparr>formState := incomplete_state\<rparr>"

text \<open>An archive of two entries, the selected one at index 1.\<close>

definition other_stored :: StoredInvoice where
  "other_stored =
     example_stored\<lparr>id_inv := ''z9y8x7w6'', savedAt := ''2023-11-15T08:00:00.000Z''\<rparr>"

definition two_entry_app :: AppState where
  "two_entry_app = incomplete_app\<lparr>savedInvoices := [other_stored, example_stored]\<rparr>"

text \<open>A store that holds the example form state as five objects, its root at address 4.\<close>

definition example_heap :: heap where
  "example_heap =
     [ClientObj example_client,
      LineItemObj example_item,
      LineItemsObj [1],
      MetaObj example_meta,
      FormStateObj
        \<lparr>obj_clientSelectionId = ''c1'', obj_client = 0, obj_currency = INR, obj_taxRate = 18,
         obj_lineItems = 2, obj_meta = 3, obj_terms = ''Payment due within 15 days.'',
         obj_additionalNote = []\<rparr>]"

section \<open>Properties of the totals calculator\<close>









section \<open>Properties of the validator\<close>

lemmas example_defs = example_client_def example_item_def example_meta_def example_state_def
  incomplete_state_def example_stored_def confirming_env_def declining_env_def example_app_def
  incomplete_app_def

lemma push_when_append: "push_when c msg issues = issues @ (if c then [msg] else [])"
  by (simp add: push_when_def)

lemma validateInvoice_eq_rules:
  "validateInvoice env st = map snd (filter fst (validation_rules env st))"
  unfolding validateInvoice_def validation_rules_def Let_def
  by (simp add: push_when_append)


lemma validateInvoice_example:
  "validateInvoice confirming_env example_state = []"
  "validateInvoice declining_env example_state = []"
  by (simp_all add: validateInvoice_eq_rules validation_rules_def example_defs trim_def
      isWhiteSpace_def lineItemInvalid_def dueBeforeIssue_def example_getTime_def isNaN_def
      js_less_def)

lemma validateInvoice_incomplete:
  "validateInvoice env incomplete_state = [''Due date is required.'', ''Bill to company name is required.'']"
  by (simp add: validateInvoice_eq_rules validation_rules_def example_defs trim_def
      isWhiteSpace_def lineItemInvalid_def dueBeforeIssue_def)



section \<open>Properties of the entry of numbers\<close>






section \<open>Properties of the removal of a line item\<close>




section \<open>Properties of the snapshot cloner\<close>

lemmas as_defs = property_def as_string_def as_optional_string_def as_number_def
  optional_property_def

lemma as_ClientDetails_stringify:
  "as_ClientDetails (Some (stringify_ClientDetails c)) = Some c"
  by (cases "addressLine2 c"; cases "gstin c")
     (simp_all add: as_ClientDetails_def stringify_ClientDetails_def as_defs)

lemma as_LineItem_stringify: "as_LineItem (stringify_LineItem item) = Some item"
  by (cases "notes_item item")
     (simp_all add: as_LineItem_def stringify_LineItem_def as_defs)

lemma as_InvoiceMeta_stringify:
  "as_InvoiceMeta (Some (stringify_InvoiceMeta m)) = Some m"
  by (cases "purchaseOrder m"; cases "reference m")
     (simp_all add: as_InvoiceMeta_def stringify_InvoiceMeta_def as_defs)

lemma as_Currency_text: "as_Currency (Some (JString (currency_text c))) = Some c"
  by (cases c) (simp_all add: as_Currency_def)

lemma those_map_Some: "those (map (\<lambda>x. Some (g x)) xs) = Some (map g xs)"
  by (induction xs) simp_all

lemma as_LineItems_stringify:
  "as_LineItems (Some (JArray (map stringify_LineItem items))) = Some items"
  using those_map_Some [of "\<lambda>x. x" items]
  by (simp add: as_LineItems_def as_LineItem_stringify comp_def)

text \<open>The round trip through the serialized text gives an equal form state.\<close>

lemma cloneFormState_Some: "cloneFormState state = Some state"
  unfolding cloneFormState_def Let_def as_InvoiceFormState_def stringify_InvoiceFormState_def
  by (simp add: property_def as_string_def as_number_def as_ClientDetails_stringify as_Currency_text
      as_LineItems_stringify as_InvoiceMeta_stringify)

section \<open>Properties of the archive store\<close>

lemma declined_declining_incomplete:
  "declined declining_env (validateInvoice declining_env incomplete_state) question"
  by (simp add: declined_def validateInvoice_incomplete declining_env_def confirming_env_def)

lemma not_declined_example:
  "\<not> declined declining_env (validateInvoice declining_env example_state) question"
  by (simp add: declined_def validateInvoice_example)

lemma not_declined_confirming:
  "\<not> declined confirming_env issues question"
  by (simp add: declined_def confirming_env_def)

lemma handleSaveInvoiceCopy_proceeds:
  "\<not> declined env (validateInvoice env (formState app)) ''Save anyway?'' \<Longrightarrow>
   handleSaveInvoiceCopy env app =
     Some (app\<lparr>savedInvoices :=
                  \<lparr>id_inv = generateId env,
                   invoiceNumber_inv = invoiceNumber (meta (formState app)),
                   savedAt = Date_toISOString env,
                   formState_inv = formState app\<rparr> # savedInvoices app,
                selectedSavedInvoiceId := generateId env\<rparr>)"
  by (simp add: handleSaveInvoiceCopy_def Let_def cloneFormState_Some)

lemma handleSaveInvoiceCopy_declined:
  "declined env (validateInvoice env (formState app)) ''Save anyway?'' \<Longrightarrow>
   handleSaveInvoiceCopy env app = Some app"
  by (simp add: handleSaveInvoiceCopy_def Let_def)

lemma handleDuplicateSavedInvoiceCopy_eq:
  "handleDuplicateSavedInvoiceCopy env app =
     Some (app\<lparr>savedInvoices :=
                  \<lparr>id_inv = generateId env,
                   invoiceNumber_inv = invoiceNumber (meta (formState app)),
                   savedAt = Date_toISOString env,
                   formState_inv = formState app\<rparr> # savedInvoices app,
                selectedSavedInvoiceId := generateId env\<rparr>)"
  by (simp add: handleDuplicateSavedInvoiceCopy_def Let_def cloneFormState_Some)

text \<open>
  C5, as the code has it. When the validator reports no issue, or the user confirms the
  dialog, or there is no window, the save builds a new entry from the generated id,
  the invoice number of the current meta data, the current time and a clone of the
  working state (equal to it), puts it in front of the archive, whose earlier entries
  follow unchanged and in order, and selects it. When the validator reports issues and
  the user declines, the save returns with the archive and the selection as they were.
\<close>

theorem save_prepends:
  "(\<not> declined env (validateInvoice env (formState app)) ''Save anyway?'' \<longrightarrow>
      cloneFormState (formState app) = Some (formState app)
      \<and> handleSaveInvoiceCopy env app =
          Some (app\<lparr>savedInvoices :=
                       \<lparr>id_inv = generateId env,
                        invoiceNumber_inv = invoiceNumber (meta (formState app)),
                        savedAt = Date_toISOString env,
                        formState_inv = formState app\<rparr> # savedInvoices app,
                     selectedSavedInvoiceId := generateId env\<rparr>))
   \<and> (declined env (validateInvoice env (formState app)) ''Save anyway?'' \<longrightarrow>
        handleSaveInvoiceCopy env app = Some app)"
  by (simp add: handleSaveInvoiceCopy_proceeds handleSaveInvoiceCopy_declined cloneFormState_Some)

text \<open>
  With a user who confirms, saving the incomplete invoice puts the new id in front of the
  archive and selects it; with a user who declines, the state stays as it was.
\<close>

theorem save_prepends_witness:
  "\<not> declined confirming_env (validateInvoice confirming_env (formState incomplete_app)) ''Save anyway?''
   \<and> map_option (map id_inv \<circ> savedInvoices) (handleSaveInvoiceCopy confirming_env incomplete_app)
       = Some [''q7w8e9r0'', ''a1b2c3d4'']
   \<and> map_option selectedSavedInvoiceId (handleSaveInvoiceCopy confirming_env incomplete_app)
       = Some ''q7w8e9r0''
   \<and> declined declining_env (validateInvoice declining_env (formState incomplete_app)) ''Save anyway?''
   \<and> handleSaveInvoiceCopy declining_env incomplete_app = Some incomplete_app"
proof -
  have a: "\<not> declined confirming_env (validateInvoice confirming_env (formState incomplete_app))
      ''Save anyway?''"
    by (rule not_declined_confirming)
  have b: "declined declining_env (validateInvoice declining_env (formState incomplete_app))
      ''Save anyway?''"
    by (simp add: incomplete_app_def declined_declining_incomplete)
  from a save_prepends [of confirming_env incomplete_app]
  have c: "handleSaveInvoiceCopy confirming_env incomplete_app =
      Some (incomplete_app\<lparr>savedInvoices :=
              \<lparr>id_inv = generateId confirming_env,
               invoiceNumber_inv = invoiceNumber (meta (formState incomplete_app)),
               savedAt = Date_toISOString confirming_env,
               formState_inv = formState incomplete_app\<rparr> # savedInvoices incomplete_app,
            selectedSavedInvoiceId := generateId confirming_env\<rparr>)"
    by blast
  from b save_prepends [of declining_env incomplete_app]
  have d: "handleSaveInvoiceCopy declining_env incomplete_app = Some incomplete_app"
    by blast
  have e: "map_option (map id_inv \<circ> savedInvoices)
      (handleSaveInvoiceCopy confirming_env incomplete_app) = Some [''q7w8e9r0'', ''a1b2c3d4'']"
    unfolding c
    by (simp add: incomplete_app_def example_app_def example_stored_def confirming_env_def)
  have f: "map_option selectedSavedInvoiceId (handleSaveInvoiceCopy confirming_env incomplete_app)
      = Some ''q7w8e9r0''"
    unfolding c by (simp add: confirming_env_def)
  from a b d e f show ?thesis by blast
qed

text \<open>
  The sentence of the specification does not hold as written: the incomplete invoice is saved while the archive holds one
  entry, the user declines the dialog, and afterwards the archive holds that entry alone
  and the selection is the old one; no entry was created.
\<close>

theorem save_counterexample:
  "map_option (map id_inv \<circ> savedInvoices) (handleSaveInvoiceCopy declining_env incomplete_app)
     = Some [''a1b2c3d4'']
   \<and> map_option selectedSavedInvoiceId (handleSaveInvoiceCopy declining_env incomplete_app)
     = Some ''a1b2c3d4''"
  by (simp add: handleSaveInvoiceCopy_declined declined_declining_incomplete
      incomplete_app_def example_app_def example_stored_def)

lemma those_map_clone:
  "those (map (\<lambda>inv. if c inv then map_option (g inv) (cloneFormState fs) else Some inv) xs)
     = Some (map (\<lambda>inv. if c inv then g inv fs else inv) xs)"
  by (induction xs) (simp_all add: cloneFormState_Some)

lemma map_no_match: "\<not> list_ex c xs \<Longrightarrow> map (\<lambda>x. if c x then g x else x) xs = xs"
  by (induction xs) simp_all

lemma handleUpdateSavedInvoiceCopy_proceeds:
  "selectedSavedInvoiceId app \<noteq> [] \<Longrightarrow>
   \<not> declined env (validateInvoice env (formState app)) ''Update anyway?'' \<Longrightarrow>
   handleUpdateSavedInvoiceCopy env app =
     Some (app\<lparr>savedInvoices :=
        map (\<lambda>inv. if id_inv inv = selectedSavedInvoiceId app
                    then inv\<lparr>invoiceNumber_inv := invoiceNumber (meta (formState app)),
                             savedAt := Date_toISOString env,
                             formState_inv := formState app\<rparr>
                    else inv) (savedInvoices app)\<rparr>)"
  by (simp add: handleUpdateSavedInvoiceCopy_def Let_def those_map_clone)

lemma handleUpdateSavedInvoiceCopy_returns:
  "selectedSavedInvoiceId app = [] \<or> declined env (validateInvoice env (formState app)) ''Update anyway?'' \<Longrightarrow>
   handleUpdateSavedInvoiceCopy env app = Some app"
  by (auto simp: handleUpdateSavedInvoiceCopy_def Let_def)

lemma handleUpdateSavedInvoiceCopy_no_match:
  assumes "\<not> list_ex (\<lambda>inv. id_inv inv = selectedSavedInvoiceId app) (savedInvoices app)"
  shows "handleUpdateSavedInvoiceCopy env app = Some app"
proof (cases "selectedSavedInvoiceId app = []
    \<or> declined env (validateInvoice env (formState app)) ''Update anyway?''")
  case True
  then show ?thesis by (rule handleUpdateSavedInvoiceCopy_returns)
next
  case False
  then show ?thesis
    using map_no_match [OF assms]
    by (simp add: handleUpdateSavedInvoiceCopy_proceeds)
qed

lemma handleUpdateSavedInvoiceCopy_frame:
  "\<exists>app'. handleUpdateSavedInvoiceCopy env app = Some app'
     \<and> formState app' = formState app
     \<and> selectedSavedInvoiceId app' = selectedSavedInvoiceId app
     \<and> map id_inv (savedInvoices app') = map id_inv (savedInvoices app)
     \<and> (\<forall>i < length (savedInvoices app).
          id_inv (savedInvoices app ! i) \<noteq> selectedSavedInvoiceId app \<longrightarrow>
          savedInvoices app' ! i = savedInvoices app ! i)"
proof (cases "selectedSavedInvoiceId app = []
    \<or> declined env (validateInvoice env (formState app)) ''Update anyway?''")
  case True
  then show ?thesis by (simp add: handleUpdateSavedInvoiceCopy_returns)
next
  case False
  then show ?thesis
    by (simp add: handleUpdateSavedInvoiceCopy_proceeds comp_def if_distrib [of id_inv] cong: if_cong)
qed

text \<open>
  C6, as the code has it. The update leaves the archive as it is when no entry has the
  selected id, when the selected id is empty, and when the validator reports issues and
  the user declines the dialog. Otherwise every entry with the selected id gets the
  invoice number of the current meta data, the current time and a clone of the working
  state (equal to it). In every case the archive keeps its length, every position keeps
  its id, every entry with another id is unchanged, and so are the working state and the
  selection.
\<close>

theorem update_in_place:
  "(\<not> list_ex (\<lambda>inv. id_inv inv = selectedSavedInvoiceId app) (savedInvoices app) \<longrightarrow>
      handleUpdateSavedInvoiceCopy env app = Some app)
   \<and> (selectedSavedInvoiceId app = []
        \<or> declined env (validateInvoice env (formState app)) ''Update anyway?'' \<longrightarrow>
      handleUpdateSavedInvoiceCopy env app = Some app)
   \<and> (selectedSavedInvoiceId app \<noteq> []
        \<and> \<not> declined env (validateInvoice env (formState app)) ''Update anyway?'' \<longrightarrow>
      cloneFormState (formState app) = Some (formState app)
      \<and> handleUpdateSavedInvoiceCopy env app =
          Some (app\<lparr>savedInvoices :=
             map (\<lambda>inv. if id_inv inv = selectedSavedInvoiceId app
                         then inv\<lparr>invoiceNumber_inv := invoiceNumber (meta (formState app)),
                                  savedAt := Date_toISOString env,
                                  formState_inv := formState app\<rparr>
                         else inv) (savedInvoices app)\<rparr>))
   \<and> (\<exists>app'. handleUpdateSavedInvoiceCopy env app = Some app'
        \<and> formState app' = formState app
        \<and> selectedSavedInvoiceId app' = selectedSavedInvoiceId app
        \<and> map id_inv (savedInvoices app') = map id_inv (savedInvoices app)
        \<and> (\<forall>i < length (savedInvoices app).
             id_inv (savedInvoices app ! i) \<noteq> selectedSavedInvoiceId app \<longrightarrow>
             savedInvoices app' ! i = savedInvoices app ! i))"
  using handleUpdateSavedInvoiceCopy_no_match [of app env]
    handleUpdateSavedInvoiceCopy_returns [of app env]
    handleUpdateSavedInvoiceCopy_proceeds [of app env]
    handleUpdateSavedInvoiceCopy_frame [of env app]
    cloneFormState_Some [of "formState app"]
  by blast

text \<open>
  Four runs on the examples: a selection that no entry has, a user who declines, a user
  who confirms, where the one entry is replaced in place under its id, and an archive of
  two entries, where the entry with the other id stays as it was at its index.
\<close>

theorem update_in_place_witness:
  "\<not> list_ex (\<lambda>inv. id_inv inv = selectedSavedInvoiceId (example_app\<lparr>selectedSavedInvoiceId := ''zzzz''\<rparr>))
        (savedInvoices (example_app\<lparr>selectedSavedInvoiceId := ''zzzz''\<rparr>))
   \<and> handleUpdateSavedInvoiceCopy confirming_env (example_app\<lparr>selectedSavedInvoiceId := ''zzzz''\<rparr>)
       = Some (example_app\<lparr>selectedSavedInvoiceId := ''zzzz''\<rparr>)
   \<and> declined declining_env (validateInvoice declining_env (formState incomplete_app)) ''Update anyway?''
   \<and> handleUpdateSavedInvoiceCopy declining_env incomplete_app = Some incomplete_app
   \<and> selectedSavedInvoiceId incomplete_app \<noteq> []
   \<and> \<not> declined confirming_env (validateInvoice confirming_env (formState incomplete_app)) ''Update anyway?''
   \<and> handleUpdateSavedInvoiceCopy confirming_env incomplete_app =
       Some (incomplete_app\<lparr>savedInvoices :=
          [\<lparr>id_inv = ''a1b2c3d4'',
            invoiceNumber_inv = ''ADS-2024-0105-k3j9x0ab'',
            savedAt = ''2024-01-05T10:30:00.000Z'',
            formState_inv = incomplete_state\<rparr>]\<rparr>)
   \<and> id_inv (savedInvoices two_entry_app ! 0) \<noteq> selectedSavedInvoiceId two_entry_app
   \<and> map_option (map id_inv \<circ> savedInvoices)
        (handleUpdateSavedInvoiceCopy confirming_env two_entry_app)
       = Some [''z9y8x7w6'', ''a1b2c3d4'']
   \<and> map_option (\<lambda>app'. savedInvoices app' ! 0)
        (handleUpdateSavedInvoiceCopy confirming_env two_entry_app) = Some other_stored"
proof -
  let ?unselected = "example_app\<lparr>selectedSavedInvoiceId := ''zzzz''\<rparr>"
  have a: "\<not> list_ex (\<lambda>inv. id_inv inv = selectedSavedInvoiceId ?unselected)
      (savedInvoices ?unselected)"
    by (simp add: example_app_def example_stored_def)
  have b: "declined declining_env (validateInvoice declining_env (formState incomplete_app))
      ''Update anyway?''"
    by (simp add: incomplete_app_def declined_declining_incomplete)
  have c: "selectedSavedInvoiceId incomplete_app \<noteq> []"
    by (simp add: incomplete_app_def example_app_def)
  have d: "\<not> declined confirming_env (validateInvoice confirming_env (formState incomplete_app))
      ''Update anyway?''"
    by (rule not_declined_confirming)
  from a update_in_place [of ?unselected confirming_env]
  have e: "handleUpdateSavedInvoiceCopy confirming_env ?unselected = Some ?unselected"
    by blast
  from b update_in_place [of incomplete_app declining_env]
  have f: "handleUpdateSavedInvoiceCopy declining_env incomplete_app = Some incomplete_app"
    by blast
  from c d update_in_place [of incomplete_app confirming_env]
  have "handleUpdateSavedInvoiceCopy confirming_env incomplete_app =
      Some (incomplete_app\<lparr>savedInvoices :=
         map (\<lambda>inv. if id_inv inv = selectedSavedInvoiceId incomplete_app
                     then inv\<lparr>invoiceNumber_inv := invoiceNumber (meta (formState incomplete_app)),
                              savedAt := Date_toISOString confirming_env,
                              formState_inv := formState incomplete_app\<rparr>
                     else inv) (savedInvoices incomplete_app)\<rparr>)"
    by blast
  also have "\<dots> = Some (incomplete_app\<lparr>savedInvoices :=
          [\<lparr>id_inv = ''a1b2c3d4'',
            invoiceNumber_inv = ''ADS-2024-0105-k3j9x0ab'',
            savedAt = ''2024-01-05T10:30:00.000Z'',
            formState_inv = incomplete_state\<rparr>]\<rparr>)"
    by (simp add: incomplete_app_def example_app_def example_stored_def confirming_env_def
        incomplete_state_def example_state_def example_meta_def)
  finally have g: "handleUpdateSavedInvoiceCopy confirming_env incomplete_app =
       Some (incomplete_app\<lparr>savedInvoices :=
          [\<lparr>id_inv = ''a1b2c3d4'',
            invoiceNumber_inv = ''ADS-2024-0105-k3j9x0ab'',
            savedAt = ''2024-01-05T10:30:00.000Z'',
            formState_inv = incomplete_state\<rparr>]\<rparr>)" .
  from update_in_place [of two_entry_app confirming_env]
  obtain app' where r: "handleUpdateSavedInvoiceCopy confirming_env two_entry_app = Some app'"
    and ids: "map id_inv (savedInvoices app') = map id_inv (savedInvoices two_entry_app)"
    and others: "\<forall>i < length (savedInvoices two_entry_app).
        id_inv (savedInvoices two_entry_app ! i) \<noteq> selectedSavedInvoiceId two_entry_app \<longrightarrow>
        savedInvoices app' ! i = savedInvoices two_entry_app ! i"
    by blast
  have h: "id_inv (savedInvoices two_entry_app ! 0) \<noteq> selectedSavedInvoiceId two_entry_app"
    and "0 < length (savedInvoices two_entry_app)"
    by (simp_all add: two_entry_app_def incomplete_app_def example_app_def other_stored_def)
  with others have "savedInvoices app' ! 0 = savedInvoices two_entry_app ! 0"
    by blast
  then have "savedInvoices app' ! 0 = other_stored"
    by (simp add: two_entry_app_def)
  with r have i: "map_option (\<lambda>app'. savedInvoices app' ! 0)
      (handleUpdateSavedInvoiceCopy confirming_env two_entry_app) = Some other_stored"
    by simp
  from ids have "map id_inv (savedInvoices app') = [''z9y8x7w6'', ''a1b2c3d4'']"
    by (simp add: two_entry_app_def other_stored_def example_stored_def)
  with r have j: "map_option (map id_inv \<circ> savedInvoices)
      (handleUpdateSavedInvoiceCopy confirming_env two_entry_app) = Some [''z9y8x7w6'', ''a1b2c3d4'']"
    by simp
  from a b c d e f g h i j show ?thesis by blast
qed

text \<open>
  The sentence of the specification does not hold as written: the one entry of the archive has the selected id, the
  working invoice is incomplete and the user declines the dialog; the entry keeps its old
  timestamp, although the clock shows another time.
\<close>

theorem update_counterexample:
  "map id_inv (savedInvoices incomplete_app) = [''a1b2c3d4'']
   \<and> selectedSavedInvoiceId incomplete_app = ''a1b2c3d4''
   \<and> Date_toISOString declining_env = ''2024-01-05T10:30:00.000Z''
   \<and> map_option (map savedAt \<circ> savedInvoices)
        (handleUpdateSavedInvoiceCopy declining_env incomplete_app)
       = Some [''2023-12-01T09:00:00.000Z'']"
proof -
  have "handleUpdateSavedInvoiceCopy declining_env incomplete_app = Some incomplete_app"
    by (rule handleUpdateSavedInvoiceCopy_returns)
       (simp add: incomplete_app_def declined_declining_incomplete)
  then show ?thesis
    by (simp add: incomplete_app_def example_app_def example_stored_def declining_env_def
        confirming_env_def)
qed

text \<open>
  C7, as the code has it. Duplicate always builds a new entry (generated id, current
  time, clone of the working state, invoice number of the current meta data), puts it in
  front of the archive and selects it, whatever the selection was. It asks for no
  confirmation: it does what save does whenever save goes on (no issue, a confirming
  user, or no window), and differs from save when the user declines.
\<close>

theorem duplicate_as_save:
  "handleDuplicateSavedInvoiceCopy env app =
     Some (app\<lparr>savedInvoices :=
                  \<lparr>id_inv = generateId env,
                   invoiceNumber_inv = invoiceNumber (meta (formState app)),
                   savedAt = Date_toISOString env,
                   formState_inv = formState app\<rparr> # savedInvoices app,
                selectedSavedInvoiceId := generateId env\<rparr>)
   \<and> (\<not> declined env (validateInvoice env (formState app)) ''Save anyway?'' \<longrightarrow>
        handleDuplicateSavedInvoiceCopy env app = handleSaveInvoiceCopy env app)"
  by (simp add: handleDuplicateSavedInvoiceCopy_eq handleSaveInvoiceCopy_proceeds)

text \<open>On the complete example invoice save asks nothing, and both give the same archive.\<close>

theorem duplicate_as_save_witness:
  "\<not> declined declining_env (validateInvoice declining_env (formState example_app)) ''Save anyway?''
   \<and> handleDuplicateSavedInvoiceCopy declining_env example_app
       = handleSaveInvoiceCopy declining_env example_app
   \<and> map_option (map id_inv \<circ> savedInvoices)
        (handleDuplicateSavedInvoiceCopy declining_env example_app)
       = Some [''q7w8e9r0'', ''a1b2c3d4'']"
proof -
  have a: "\<not> declined declining_env (validateInvoice declining_env (formState example_app))
      ''Save anyway?''"
    by (simp add: example_app_def not_declined_example)
  note r = duplicate_as_save [of declining_env example_app]
  from a r have b: "handleDuplicateSavedInvoiceCopy declining_env example_app
      = handleSaveInvoiceCopy declining_env example_app"
    by blast
  have c: "map_option (map id_inv \<circ> savedInvoices)
      (handleDuplicateSavedInvoiceCopy declining_env example_app) = Some [''q7w8e9r0'', ''a1b2c3d4'']"
    unfolding r [THEN conjunct1]
    by (simp add: example_app_def example_stored_def declining_env_def confirming_env_def)
  from a b c show ?thesis by blast
qed

text \<open>
  The sentence of the specification does not hold as written: on the incomplete invoice with a user who declines, save
  leaves one entry in the archive and duplicate leaves two.
\<close>

theorem duplicate_counterexample:
  "map_option (length \<circ> savedInvoices) (handleSaveInvoiceCopy declining_env incomplete_app) = Some 1
   \<and> map_option (length \<circ> savedInvoices)
        (handleDuplicateSavedInvoiceCopy declining_env incomplete_app) = Some 2"
  by (simp add: handleSaveInvoiceCopy_declined declined_declining_incomplete
      handleDuplicateSavedInvoiceCopy_eq incomplete_app_def example_app_def)

text \<open>
  C9. For an id that no entry of the archive has, load leaves the whole state (working
  state, selection, archive) as it is. For an id that is present, load takes the first
  entry with that id, makes a clone of its state (equal to it) the working state, selects
  the id and switches to the preview layout; the archive is unchanged.
\<close>

theorem load_by_id:
  "(id' \<notin> set (map id_inv (savedInvoices app)) \<longrightarrow> handleLoadSavedInvoice id' app = Some app)
   \<and> (\<forall>match. find (\<lambda>inv. id_inv inv = id') (savedInvoices app) = Some match \<longrightarrow>
        cloneFormState (formState_inv match) = Some (formState_inv match)
        \<and> handleLoadSavedInvoice id' app =
            Some (app\<lparr>formState := formState_inv match,
                       selectedSavedInvoiceId := id',
                       hasUserSelectedLayout := True,
                       layoutMode := Preview\<rparr>))"
proof (intro conjI allI impI)
  assume "id' \<notin> set (map id_inv (savedInvoices app))"
  then have "find (\<lambda>inv. id_inv inv = id') (savedInvoices app) = None"
    by (auto simp: find_None_iff)
  then show "handleLoadSavedInvoice id' app = Some app"
    by (simp add: handleLoadSavedInvoice_def)
next
  fix match
  assume m: "find (\<lambda>inv. id_inv inv = id') (savedInvoices app) = Some match"
  show "cloneFormState (formState_inv match) = Some (formState_inv match)"
    by (rule cloneFormState_Some)
  from m have "id_inv match = id'"
    by (auto simp: find_Some_iff)
  with m show "handleLoadSavedInvoice id' app =
      Some (app\<lparr>formState := formState_inv match, selectedSavedInvoiceId := id',
                 hasUserSelectedLayout := True, layoutMode := Preview\<rparr>)"
    by (simp add: handleLoadSavedInvoice_def cloneFormState_Some)
qed

text \<open>Loading an unknown id and loading the id of the example entry.\<close>

theorem load_by_id_witness:
  "''zzzz'' \<notin> set (map id_inv (savedInvoices incomplete_app))
   \<and> handleLoadSavedInvoice ''zzzz'' incomplete_app = Some incomplete_app
   \<and> find (\<lambda>inv. id_inv inv = ''a1b2c3d4'') (savedInvoices incomplete_app) = Some example_stored
   \<and> handleLoadSavedInvoice ''a1b2c3d4'' incomplete_app =
       Some (incomplete_app\<lparr>formState := formState_inv example_stored,
                            selectedSavedInvoiceId := ''a1b2c3d4'',
                            hasUserSelectedLayout := True,
                            layoutMode := Preview\<rparr>)"
proof -
  have a: "''zzzz'' \<notin> set (map id_inv (savedInvoices incomplete_app))"
    by (simp add: incomplete_app_def example_app_def example_stored_def)
  have b: "find (\<lambda>inv. id_inv inv = ''a1b2c3d4'') (savedInvoices incomplete_app)
      = Some example_stored"
    by (simp add: incomplete_app_def example_app_def example_stored_def)
  from a load_by_id [of "''zzzz''" incomplete_app]
  have c: "handleLoadSavedInvoice ''zzzz'' incomplete_app = Some incomplete_app"
    by blast
  from b load_by_id [of "''a1b2c3d4''" incomplete_app]
  have d: "handleLoadSavedInvoice ''a1b2c3d4'' incomplete_app =
       Some (incomplete_app\<lparr>formState := formState_inv example_stored,
                            selectedSavedInvoiceId := ''a1b2c3d4'',
                            hasUserSelectedLayout := True,
                            layoutMode := Preview\<rparr>)"
    by blast
  from a b c d show ?thesis by blast
qed

section \<open>Properties of the clone as an object graph\<close>

lemma object_at_append:
  "object_at h x = Some v \<Longrightarrow> object_at (h @ ext) x = Some v"
  by (auto simp: object_at_def nth_append split: if_splits)

lemma object_at_Some_less: "object_at h x = Some v \<Longrightarrow> x < length h"
  by (simp add: object_at_def split: if_splits)

lemma object_at_update: "x \<noteq> b \<Longrightarrow> object_at (h[b := obj]) x = object_at h x"
  by (simp add: object_at_def)

lemma object_at_fresh: "object_at (h @ obj # ext) (length h) = Some obj"
  by (simp add: object_at_def)

lemma those_map_Some_id: "those (map Some xs) = Some xs"
  by (induction xs) simp_all

lemma those_Some_D: "those xs = Some ys \<Longrightarrow> xs = map Some ys"
  by (induction xs arbitrary: ys) (auto split: option.splits)

lemma upt_shift: "[n ..< n + Suc k] = n # [Suc n ..< Suc n + k]"
  using upt_conv_Cons [of n "n + Suc k"] by simp

lemma alloc_LineItems_eq:
  "alloc_LineItems items h =
     ([length h ..< length h + length items], h @ map LineItemObj items)"
proof (induction items arbitrary: h)
  case Nil
  then show ?case by simp
next
  case (Cons item rest)
  from Cons [of "h @ [LineItemObj item]"] show ?case
    using upt_shift [of "length h" "length rest"]
    by (simp add: alloc_def)
qed

lemma build_FormState_eq:
  "build_FormState state h =
     (length h + length (lineItems state) + 3,
      h @ ClientObj (client state) # map LineItemObj (lineItems state)
        @ [LineItemsObj [Suc (length h) ..< Suc (length h) + length (lineItems state)],
           MetaObj (meta state),
           FormStateObj
             \<lparr>obj_clientSelectionId = clientSelectionId state, obj_client = length h,
              obj_currency = currency state, obj_taxRate = taxRate state,
              obj_lineItems = length h + length (lineItems state) + 1,
              obj_meta = length h + length (lineItems state) + 2, obj_terms = terms state,
              obj_additionalNote = additionalNote state\<rparr>])"
  by (simp add: build_FormState_def alloc_def alloc_LineItems_eq)

text \<open>Reading is unchanged by a write outside the graph.\<close>

lemma read_LineItem_update: "x \<noteq> b \<Longrightarrow> read_LineItem (h[b := obj]) x = read_LineItem h x"
  by (simp add: read_LineItem_def object_at_update)

lemma read_FormState_update:
  assumes "b \<notin> set (objects_of h a)"
  shows "read_FormState (h[b := obj]) a = read_FormState h a"
proof (cases "object_at h a")
  case None
  with assms show ?thesis
    by (simp add: read_FormState_def objects_of_def object_at_update)
next
  case (Some v)
  show ?thesis
  proof (cases v)
    case (FormStateObj r)
    with Some assms have ne: "a \<noteq> b" "obj_client r \<noteq> b" "obj_meta r \<noteq> b" "obj_lineItems r \<noteq> b"
      by (auto simp: objects_of_def)
    have "read_LineItems (h[b := obj]) (obj_lineItems r) = read_LineItems h (obj_lineItems r)"
    proof (cases "object_at h (obj_lineItems r)")
      case None
      with ne show ?thesis by (simp add: read_LineItems_def object_at_update)
    next
      case inner: (Some w)
      show ?thesis
      proof (cases w)
        case (LineItemsObj items)
        with Some FormStateObj inner assms have "\<forall>x\<in>set items. x \<noteq> b"
          by (auto simp: objects_of_def)
        then have m: "map (read_LineItem (h[b := obj])) items = map (read_LineItem h) items"
          by (simp add: read_LineItem_update)
        from ne inner LineItemsObj show ?thesis
          by (simp add: read_LineItems_def object_at_update m)
      qed (use ne inner in \<open>simp_all add: read_LineItems_def object_at_update\<close>)
    qed
    with ne Some FormStateObj show ?thesis
      by (simp add: read_FormState_def object_at_update read_ClientDetails_def
          read_InvoiceMeta_def)
  qed (use Some assms in \<open>simp_all add: read_FormState_def objects_of_def object_at_update\<close>)
qed

text \<open>Reading a graph is unchanged by allocation, and its objects are old ones.\<close>

lemma read_LineItem_append:
  "read_LineItem h x = Some item \<Longrightarrow> read_LineItem (h @ ext) x = Some item"
  by (auto simp: read_LineItem_def object_at_append split: option.splits object.splits)

lemma read_LineItem_less: "read_LineItem h x = Some item \<Longrightarrow> x < length h"
  by (auto simp: read_LineItem_def dest: object_at_Some_less split: option.splits object.splits)

lemma those_read_LineItems_append:
  assumes "those (map (read_LineItem h) items) = Some vs"
  shows "those (map (read_LineItem (h @ ext)) items) = Some vs \<and> (\<forall>x\<in>set items. x < length h)"
proof -
  from assms have eq: "map (read_LineItem h) items = map Some vs"
    by (rule those_Some_D)
  then have len: "length items = length vs"
    by (metis length_map)
  have each: "read_LineItem h (items ! i) = Some (vs ! i)" if "i < length items" for i
    using that eq len by (metis nth_map)
  have "map (read_LineItem (h @ ext)) items = map Some vs"
  proof (rule nth_equalityI)
    show "length (map (read_LineItem (h @ ext)) items) = length (map Some vs)"
      by (simp add: len)
  next
    fix i
    assume "i < length (map (read_LineItem (h @ ext)) items)"
    then have i: "i < length items" by simp
    with each [OF i] len show "map (read_LineItem (h @ ext)) items ! i = map Some vs ! i"
      by (simp add: read_LineItem_append)
  qed
  moreover have "\<forall>x\<in>set items. x < length h"
    using each read_LineItem_less by (metis in_set_conv_nth)
  ultimately show ?thesis
    by (simp add: those_map_Some_id)
qed

lemma read_FormState_append:
  assumes "read_FormState h a = Some state"
  shows "read_FormState (h @ ext) a = Some state"
    and "objects_of (h @ ext) a = objects_of h a"
    and "\<forall>x\<in>set (objects_of h a). x < length h"
proof -
  from assms obtain r where r: "object_at h a = Some (FormStateObj r)"
    by (auto simp: read_FormState_def split: option.splits object.splits)
  from assms r obtain c where c: "object_at h (obj_client r) = Some (ClientObj c)"
    by (auto simp: read_FormState_def read_ClientDetails_def
        split: option.splits object.splits bind_splits)
  from assms r obtain m where m: "object_at h (obj_meta r) = Some (MetaObj m)"
    by (auto simp: read_FormState_def read_InvoiceMeta_def
        split: option.splits object.splits bind_splits)
  from assms r obtain items vs where
    items: "object_at h (obj_lineItems r) = Some (LineItemsObj items)"
      and vs: "those (map (read_LineItem h) items) = Some vs"
    by (auto simp: read_FormState_def read_LineItems_def
        split: option.splits object.splits bind_splits)
  note ext = those_read_LineItems_append [OF vs, of ext]
  from assms r c m items vs ext show "read_FormState (h @ ext) a = Some state"
    by (simp add: read_FormState_def read_ClientDetails_def read_InvoiceMeta_def
        read_LineItems_def object_at_append)
  from r items show "objects_of (h @ ext) a = objects_of h a"
    by (simp add: objects_of_def object_at_append)
  from r c m items ext show "\<forall>x\<in>set (objects_of h a). x < length h"
    by (auto simp: objects_of_def dest: object_at_Some_less)
qed

text \<open>The graph that \<open>build_FormState\<close> allocates reads as the form state it was built from.\<close>

lemma read_fresh_LineItems:
  "those (map (read_LineItem (h @ obj # map LineItemObj items @ ext))
       [Suc (length h) ..< Suc (length h) + length items]) = Some items"
proof -
  have "map (read_LineItem (h @ obj # map LineItemObj items @ ext))
       [Suc (length h) ..< Suc (length h) + length items] = map Some items"
  proof (rule nth_equalityI)
    show "length (map (read_LineItem (h @ obj # map LineItemObj items @ ext))
        [Suc (length h) ..< Suc (length h) + length items]) = length (map Some items)"
      by (simp del: upt_Suc)
  next
    fix i
    assume "i < length (map (read_LineItem (h @ obj # map LineItemObj items @ ext))
        [Suc (length h) ..< Suc (length h) + length items])"
    then have i: "i < length items" by (simp del: upt_Suc)
    then show "map (read_LineItem (h @ obj # map LineItemObj items @ ext))
        [Suc (length h) ..< Suc (length h) + length items] ! i = map Some items ! i"
      by (simp add: read_LineItem_def object_at_def nth_append del: upt_Suc)
  qed
  then show ?thesis
    by (simp add: those_map_Some_id)
qed

lemma read_build_FormState:
  assumes "build_FormState state h = (a', h')"
  shows "read_FormState h' a' = Some state"
    and "\<forall>x\<in>set (objects_of h' a'). length h \<le> x"
    and "\<exists>ext. h' = h @ ext"
proof -
  let ?k = "length (lineItems state)"
  let ?root = "\<lparr>obj_clientSelectionId = clientSelectionId state, obj_client = length h,
      obj_currency = currency state, obj_taxRate = taxRate state,
      obj_lineItems = length h + ?k + 1, obj_meta = length h + ?k + 2,
      obj_terms = terms state, obj_additionalNote = additionalNote state\<rparr>"
  let ?ext = "[LineItemsObj [Suc (length h) ..< Suc (length h) + ?k], MetaObj (meta state),
      FormStateObj ?root]"
  from assms have a': "a' = length h + ?k + 3"
    and h': "h' = h @ ClientObj (client state) # map LineItemObj (lineItems state) @ ?ext"
    by (simp_all add: build_FormState_eq)
  have root: "object_at h' a' = Some (FormStateObj ?root)"
    by (simp add: a' h' object_at_def nth_append)
  have cl: "object_at h' (length h) = Some (ClientObj (client state))"
    by (simp add: h' object_at_def nth_append)
  have arr: "object_at h' (length h + ?k + 1)
      = Some (LineItemsObj [Suc (length h) ..< Suc (length h) + ?k])"
    by (simp add: h' object_at_def nth_append)
  have mt: "object_at h' (length h + ?k + 2) = Some (MetaObj (meta state))"
    by (simp add: h' object_at_def nth_append)
  have items: "those (map (read_LineItem h') [Suc (length h) ..< Suc (length h) + ?k])
      = Some (lineItems state)"
    unfolding h' by (rule read_fresh_LineItems)
  from root cl arr mt items show "read_FormState h' a' = Some state"
    by (simp add: read_FormState_def read_ClientDetails_def read_LineItems_def
        read_InvoiceMeta_def)
  from root arr show "\<forall>x\<in>set (objects_of h' a'). length h \<le> x"
    by (auto simp: objects_of_def a')
  from h' show "\<exists>ext. h' = h @ ext"
    by blast
qed

text \<open>
  C8. Cloning a form state gives a graph that reads as an equal form state and shares
  no object with the original: the original still reads as before, a write to any object
  of the clone leaves the value of the original unchanged, and a write to any object of
  the original leaves the value of the clone unchanged. Save stores and load installs
  such a clone, so the state of an archive entry and the working state share no object.
\<close>

theorem clone_independent:
  assumes "read_FormState h a = Some state"
  shows "\<exists>a' h'. cloneFormState_heap a h = Some (a', h')
     \<and> read_FormState h' a' = Some state
     \<and> read_FormState h' a = Some state
     \<and> set (objects_of h' a') \<inter> set (objects_of h' a) = {}
     \<and> (\<forall>b\<in>set (objects_of h' a'). \<forall>obj. read_FormState (h'[b := obj]) a = Some state)
     \<and> (\<forall>b\<in>set (objects_of h' a). \<forall>obj. read_FormState (h'[b := obj]) a' = Some state)"
proof -
  obtain a' h' where b: "build_FormState state h = (a', h')"
    by (cases "build_FormState state h")
  with assms have c: "cloneFormState_heap a h = Some (a', h')"
    by (simp add: cloneFormState_heap_def cloneFormState_Some)
  note new = read_build_FormState [OF b]
  from new(3) obtain ext where ext: "h' = h @ ext" ..
  note old = read_FormState_append(1) [OF assms, of ext, folded ext]
    read_FormState_append(2) [OF assms, of ext, folded ext]
    read_FormState_append(3) [OF assms]
  have disj: "set (objects_of h' a') \<inter> set (objects_of h' a) = {}"
    using new(2) old(2,3) by fastforce
  have "read_FormState (h'[b := obj]) a = Some state" if "b \<in> set (objects_of h' a')" for b obj
    using that disj old(1) read_FormState_update [of b h' a obj] by auto
  moreover
  have "read_FormState (h'[b := obj]) a' = Some state" if "b \<in> set (objects_of h' a)" for b obj
    using that disj new(1) read_FormState_update [of b h' a' obj] by auto
  ultimately show ?thesis
    using c new(1) old(1) disj by blast
qed

text \<open>The example store holds the example form state at address 4.\<close>

theorem clone_independent_witness:
  "read_FormState example_heap 4 = Some example_state
   \<and> (\<exists>a' h'. cloneFormState_heap 4 example_heap = Some (a', h')
        \<and> read_FormState h' a' = Some example_state
        \<and> read_FormState h' 4 = Some example_state
        \<and> set (objects_of h' a') \<inter> set (objects_of h' 4) = {}
        \<and> (\<forall>b\<in>set (objects_of h' a'). \<forall>obj. read_FormState (h'[b := obj]) 4 = Some example_state)
        \<and> (\<forall>b\<in>set (objects_of h' 4). \<forall>obj. read_FormState (h'[b := obj]) a' = Some example_state))"
proof -
  have r: "read_FormState example_heap 4 = Some example_state"
    by (simp add: read_FormState_def read_ClientDetails_def read_LineItems_def read_LineItem_def
        read_InvoiceMeta_def object_at_def example_heap_def example_state_def)
  from r clone_independent [OF r] show ?thesis
    by blast
qed

end
